theory Spec2Isabelle
  imports Main
begin

section \<open>Values of the dashboard client (static/js/main.js)\<close>

text \<open>
  A JavaScript string is modelled as a \<^typ>\<open>string\<close> holding its UTF-8 bytes.  The values
  that reach the script from \<^verbatim>\<open>res.json()\<close> are JSON values.  The script never computes
  with a number of the body: it prints it (in a template literal, through \<^verbatim>\<open>String\<close> and
  through \<^verbatim>\<open>JSON.stringify\<close>, which all give the same text for a finite number) and tests
  whether it is zero.  So a number is held as the text JavaScript prints for it, which is
  \<^verbatim>\<open>0\<close> for a zero of either sign and for no other number.  An object is the list of its own
  properties in enumeration order, each key once; \<^verbatim>\<open>undefined\<close> is \<open>None\<close> of type
  \<open>json option\<close>.
\<close>

datatype json =
    JNull
  | JBool bool
  | JNum string
  | JStr string
  | JArr "json list"
  | JObj "(string \<times> json) list"

text \<open>What a rejected promise or a \<^verbatim>\<open>throw\<close> carries.\<close>

datatype exn =
    TypeError
  | FetchFailed
  | BodyFailed
  | Error string

type_synonym 'a result = "exn + 'a"

subsection \<open>Decimal notation of the counters of the script\<close>

text \<open>The status code of a response and the index of a row are small natural numbers.\<close>

definition digit :: "nat \<Rightarrow> char" where
  "digit d = char_of (48 + d)"

fun show_nat :: "nat \<Rightarrow> string" where
  "show_nat n = (if n < 10 then [digit n] else show_nat (n div 10) @ [digit (n mod 10)])"

declare show_nat.simps [simp del]

subsection \<open>Truthiness, property access, string conversion\<close>

text \<open>The operand test of \<^verbatim>\<open>!x\<close>, \<^verbatim>\<open>x || y\<close> and \<^verbatim>\<open>if (x)\<close>.\<close>

fun truthy :: "json option \<Rightarrow> bool" where
  "truthy None = False"
| "truthy (Some JNull) = False"
| "truthy (Some (JBool b)) = b"
| "truthy (Some (JNum p)) = (p \<noteq> ''0'')"
| "truthy (Some (JStr s)) = (s \<noteq> [])"
| "truthy (Some (JArr xs)) = True"
| "truthy (Some (JObj kvs)) = True"

text \<open>
  \<^verbatim>\<open>v.key\<close> for the property names the script reads (\<^verbatim>\<open>access_token\<close>, \<^verbatim>\<open>admin\<close>,
  \<^verbatim>\<open>name\<close>, \<^verbatim>\<open>user\<close>, \<^verbatim>\<open>time\<close>, \<^verbatim>\<open>timestamp\<close>, \<^verbatim>\<open>status\<close>): reading a property of
  \<^verbatim>\<open>null\<close> throws, an object answers with its own property, and no other value has a
  property of one of these names.
\<close>

fun get_prop :: "json \<Rightarrow> string \<Rightarrow> json option result" where
  "get_prop JNull k = Inl TypeError"
| "get_prop (JObj kvs) k = Inr (map_of kvs k)"
| "get_prop v k = Inr None"

text \<open>
  \<^verbatim>\<open>String(v)\<close>, as a template literal and \<^verbatim>\<open>localStorage.setItem\<close> apply it.  An array
  joins its elements with commas, \<^verbatim>\<open>null\<close> elements printing as the empty string; an
  object prints as \<^verbatim>\<open>[object Object]\<close> unless an own property shadows \<^verbatim>\<open>toString\<close>, in
  which case no JSON value is callable and the conversion throws.
\<close>

fun to_string :: "json \<Rightarrow> string option"
  and join_elems :: "json list \<Rightarrow> string option" where
  "to_string JNull = Some ''null''"
| "to_string (JBool b) = Some (if b then ''true'' else ''false'')"
| "to_string (JNum p) = Some p"
| "to_string (JStr s) = Some s"
| "to_string (JArr xs) = join_elems xs"
| "to_string (JObj kvs) =
     (if map_of kvs ''toString'' = None then Some ''[object Object]'' else None)"
| "join_elems [] = Some []"
| "join_elems (x # xs) =
     (case (if x = JNull then Some [] else to_string x) of
        None \<Rightarrow> None
      | Some s \<Rightarrow>
          (case xs of
             [] \<Rightarrow> Some s
           | _ # _ \<Rightarrow> (case join_elems xs of None \<Rightarrow> None | Some r \<Rightarrow> Some (s @ '','' @ r))))"

definition ToString :: "json option \<Rightarrow> string result" where
  "ToString v =
     (case v of
        None \<Rightarrow> Inr ''undefined''
      | Some j \<Rightarrow> (case to_string j of None \<Rightarrow> Inl TypeError | Some s \<Rightarrow> Inr s))"

subsection \<open>\<^verbatim>\<open>JSON.stringify\<close>\<close>

definition hex_digit :: "nat \<Rightarrow> char" where
  "hex_digit d = (if d < 10 then char_of (48 + d) else char_of (87 + d))"

definition escape_char :: "char \<Rightarrow> string" where
  "escape_char c =
     (if c = CHR 0x22 then [CHR 0x5C, CHR 0x22]
      else if c = CHR 0x5C then [CHR 0x5C, CHR 0x5C]
      else if c = CHR 0x08 then [CHR 0x5C, CHR ''b'']
      else if c = CHR 0x0C then [CHR 0x5C, CHR ''f'']
      else if c = CHR 0x0A then [CHR 0x5C, CHR ''n'']
      else if c = CHR 0x0D then [CHR 0x5C, CHR ''r'']
      else if c = CHR 0x09 then [CHR 0x5C, CHR ''t'']
      else if (of_char c :: nat) < 32
        then [CHR 0x5C, CHR ''u'', CHR ''0'', CHR ''0'',
              hex_digit (of_char c div 16), hex_digit (of_char c mod 16)]
      else [c])"

definition quote :: "string \<Rightarrow> string" where
  "quote s = CHR 0x22 # concat (map escape_char s) @ [CHR 0x22]"

fun stringify :: "json \<Rightarrow> string"
  and stringify_elems :: "json list \<Rightarrow> string"
  and stringify_props :: "(string \<times> json) list \<Rightarrow> string" where
  "stringify JNull = ''null''"
| "stringify (JBool b) = (if b then ''true'' else ''false'')"
| "stringify (JNum p) = p"
| "stringify (JStr s) = quote s"
| "stringify (JArr xs) = ''['' @ stringify_elems xs @ '']''"
| "stringify (JObj kvs) = ''{'' @ stringify_props kvs @ ''}''"
| "stringify_elems [] = []"
| "stringify_elems (x # xs) =
     stringify x @ (case xs of [] \<Rightarrow> [] | _ # _ \<Rightarrow> '','' @ stringify_elems xs)"
| "stringify_props [] = []"
| "stringify_props (kv # kvs) =
     quote (fst kv) @ '':'' @ stringify (snd kv) @
     (case kvs of [] \<Rightarrow> [] | _ # _ \<Rightarrow> '','' @ stringify_props kvs)"

text \<open>\<^verbatim>\<open>JSON.stringify(undefined)\<close> is \<^verbatim>\<open>undefined\<close>.\<close>

definition JSON_stringify :: "json option \<Rightarrow> json option" where
  "JSON_stringify v = map_option (\<lambda>j. JStr (stringify j)) v"

section \<open>The page: storage, document, network\<close>

text \<open>
  A request as \<^verbatim>\<open>fetch\<close> is given it; \<open>form\<close> holds the fields of a
  \<^verbatim>\<open>URLSearchParams\<close> body, in the order they were appended.
\<close>

record request =
  http_method :: string
  url :: string
  headers :: "(string \<times> string) list"
  form :: "(string \<times> string) list"

text \<open>
  A response as the script observes it: the status line, and what \<^verbatim>\<open>res.text()\<close>,
  \<^verbatim>\<open>res.json()\<close> and \<^verbatim>\<open>res.blob()\<close> resolve to (\<open>None\<close> when that promise rejects).
  \<open>NoResponse\<close> is a \<^verbatim>\<open>fetch\<close> whose promise rejects: nothing came back.
\<close>

record response =
  status :: nat
  body_text :: "string option"
  body_json :: "json option"
  body_blob :: "string option"

datatype fetch_outcome = NoResponse | Response response

definition ok :: "response \<Rightarrow> bool" where
  "ok res = (200 \<le> status res \<and> status res \<le> 299)"

text \<open>
  The state the handlers read and write.  An element of the document is \<open>None\<close> when the
  page has no element of that id.  The table is kept as the markup last assigned to its
  \<^verbatim>\<open>innerHTML\<close>.  \<open>location_href\<close> is the pending navigation, \<open>requests\<close> the log of
  every \<^verbatim>\<open>fetch\<close> issued, \<open>downloads\<close> the files handed to the browser (name, content).
\<close>

record page =
  localStorage :: "string \<rightharpoonup> string"
  location_href :: "string option"
  admin_name :: "string option"
  error_message :: "string option"
  attendance_table :: "string option"
  alerts :: "string list"
  console :: "exn list"
  downloads :: "(string \<times> string) list"
  requests :: "request list"

definition BACKEND_URL :: string where
  "BACKEND_URL = ''http://127.0.0.1:8000''"

definition getItem :: "string \<Rightarrow> page \<Rightarrow> string option" where
  "getItem k s = localStorage s k"

definition setItem :: "string \<Rightarrow> string \<Rightarrow> page \<Rightarrow> page" where
  "setItem k v s = s\<lparr>localStorage := (localStorage s)(k \<mapsto> v)\<rparr>"

definition removeItem :: "string \<Rightarrow> page \<Rightarrow> page" where
  "removeItem k s = s\<lparr>localStorage := (localStorage s)(k := None)\<rparr>"

text \<open>\<^verbatim>\<open>!x\<close> on what \<^verbatim>\<open>getItem\<close> returned is false for a non-empty string only.\<close>

definition present :: "string option \<Rightarrow> bool" where
  "present v = truthy (map_option JStr v)"

definition send :: "request \<Rightarrow> page \<Rightarrow> page" where
  "send req s = s\<lparr>requests := requests s @ [req]\<rparr>"

definition alert :: "string \<Rightarrow> page \<Rightarrow> page" where
  "alert msg s = s\<lparr>alerts := alerts s @ [msg]\<rparr>"

definition bind :: "'a result \<Rightarrow> ('a \<Rightarrow> 'b result) \<Rightarrow> 'b result" where
  "bind m f = (case m of Inl e \<Rightarrow> Inl e | Inr x \<Rightarrow> f x)"

section \<open>Login, logout, session guard\<close>

definition login_request :: "string \<Rightarrow> string \<Rightarrow> request" where
  "login_request email password =
     \<lparr>http_method = ''POST'', url = BACKEND_URL @ ''/admin/login'',
      headers = [(''Content-Type'', ''application/x-www-form-urlencoded'')],
      form = [(''username'', email), (''password'', password)]\<rparr>"

text \<open>
  \<^verbatim>\<open>login(email, password)\<close>.  The result is the resolved value of the promise or the
  error it rejects with, together with the page as the call leaves it.
\<close>

definition login :: "page \<Rightarrow> string \<Rightarrow> string \<Rightarrow> fetch_outcome \<Rightarrow> json result \<times> page" where
  "login s email password out =
     (let s1 = send (login_request email password) s in
      case out of
        NoResponse \<Rightarrow> (Inl FetchFailed, s1)
      | Response res \<Rightarrow>
          if \<not> ok res then
            (let errText = body_text res in
             (Inl (Error (''Login failed: '' @
                (case errText of
                   None \<Rightarrow> show_nat (status res)
                 | Some t \<Rightarrow> if t \<noteq> [] then t else show_nat (status res)))), s1))
          else
            (case body_json res of
               None \<Rightarrow> (Inl BodyFailed, s1)
             | Some data \<Rightarrow>
                 (case bind (get_prop data ''access_token'') ToString of
                    Inl e \<Rightarrow> (Inl e, s1)
                  | Inr token \<Rightarrow>
                      (let s2 = setItem ''token'' token s1 in
                       case bind (get_prop data ''admin'') (\<lambda>a. ToString (JSON_stringify a)) of
                         Inl e \<Rightarrow> (Inl e, s2)
                       | Inr admin \<Rightarrow> (Inr data, setItem ''admin'' admin s2)))))"

definition logout :: "page \<Rightarrow> page" where
  "logout s =
     (removeItem ''token'' (removeItem ''admin'' s))\<lparr>location_href := Some ''index.html''\<rparr>"

text \<open>
  \<^verbatim>\<open>checkAuth()\<close>: the redirect is an assignment, after which the function goes on to the
  name element.  Assigning \<^verbatim>\<open>null\<close> to \<^verbatim>\<open>textContent\<close> empties the element.
\<close>

definition checkAuth :: "page \<Rightarrow> page" where
  "checkAuth s =
     (let admin = getItem ''admin'' s;
          s1 = (if \<not> present admin then s\<lparr>location_href := Some ''index.html''\<rparr> else s)
      in case admin_name s1 of
           None \<Rightarrow> s1
         | Some old \<Rightarrow> s1\<lparr>admin_name := Some (case admin of None \<Rightarrow> [] | Some a \<Rightarrow> a)\<rparr>)"

section \<open>Loading and rendering the attendance table\<close>

definition attendance_request :: "string \<Rightarrow> request" where
  "attendance_request token =
     \<lparr>http_method = ''GET'', url = BACKEND_URL @ ''/attendance'',
      headers = [(''Authorization'', ''Bearer '' @ token)], form = []\<rparr>"

text \<open>The placeholder glyph is an em dash, three bytes in UTF-8.\<close>

definition dash :: string where
  "dash = [CHR 0xE2, CHR 0x80, CHR 0x94]"

text \<open>\<^verbatim>\<open>record.k || rest\<close>, the right operand evaluated only when the left one is falsy.\<close>

definition or_prop :: "json \<Rightarrow> string \<Rightarrow> json option result \<Rightarrow> json option result" where
  "or_prop record k rest = bind (get_prop record k) (\<lambda>v. if truthy v then Inr v else rest)"

text \<open>The template literal of the loop body, line breaks and indentation included.\<close>

definition row_template :: "string \<Rightarrow> string \<Rightarrow> string \<Rightarrow> string \<Rightarrow> string" where
  "row_template c0 c1 c2 c3 =
     [CHR 0x0A] @ ''          <tr>'' @ [CHR 0x0A] @
     ''            <td>'' @ c0 @ ''</td>'' @ [CHR 0x0A] @
     ''            <td>'' @ c1 @ ''</td>'' @ [CHR 0x0A] @
     ''            <td>'' @ c2 @ ''</td>'' @ [CHR 0x0A] @
     ''            <td>'' @ c3 @ ''</td>'' @ [CHR 0x0A] @
     ''          </tr>''"

definition row_html :: "json \<Rightarrow> nat \<Rightarrow> string result" where
  "row_html record index =
     bind (bind (or_prop record ''name'' (or_prop record ''user'' (Inr (Some (JStr dash)))))
             ToString) (\<lambda>c1.
     bind (bind (or_prop record ''time'' (or_prop record ''timestamp'' (Inr (Some (JStr dash)))))
             ToString) (\<lambda>c2.
     bind (bind (or_prop record ''status'' (Inr (Some (JStr ''Present''))))
             ToString) (\<lambda>c3.
     Inr (row_template (show_nat (index + 1)) c1 c2 c3))))"

text \<open>\<^verbatim>\<open>data.forEach((record, index) => { html += ... })\<close> over the elements of an array.\<close>

fun forEach_rows :: "json list \<Rightarrow> nat \<Rightarrow> string \<Rightarrow> string result" where
  "forEach_rows [] index html = Inr html"
| "forEach_rows (record # rest) index html =
     bind (row_html record index) (\<lambda>row. forEach_rows rest (index + 1) (html @ row))"

text \<open>
  \<^verbatim>\<open>data.length === 0\<close>: \<^verbatim>\<open>null\<close> has no properties, an array and a string have a
  length, an object may own a property of that name.
\<close>

fun length_is_zero :: "json \<Rightarrow> bool result" where
  "length_is_zero JNull = Inl TypeError"
| "length_is_zero (JArr xs) = Inr (xs = [])"
| "length_is_zero (JStr s) = Inr (s = [])"
| "length_is_zero (JObj kvs) = Inr (map_of kvs ''length'' = Some (JNum ''0''))"
| "length_is_zero v = Inr False"

text \<open>
  \<^verbatim>\<open>let html = ""; data.forEach(...)\<close>: only an array has a callable \<^verbatim>\<open>forEach\<close>.
\<close>

fun render_rows :: "json \<Rightarrow> string result" where
  "render_rows (JArr xs) = forEach_rows xs 0 []"
| "render_rows v = Inl TypeError"

text \<open>Assignments to \<^verbatim>\<open>tableRoot.innerHTML\<close> and \<^verbatim>\<open>errorElement.textContent\<close>.\<close>

definition set_innerHTML :: "string \<Rightarrow> page \<Rightarrow> unit result \<times> page" where
  "set_innerHTML html s =
     (case attendance_table s of
        None \<Rightarrow> (Inl TypeError, s)
      | Some old \<Rightarrow> (Inr (), s\<lparr>attendance_table := Some html\<rparr>))"

definition set_error_text :: "string \<Rightarrow> page \<Rightarrow> unit result \<times> page" where
  "set_error_text msg s =
     (case error_message s of
        None \<Rightarrow> (Inl TypeError, s)
      | Some old \<Rightarrow> (Inr (), s\<lparr>error_message := Some msg\<rparr>))"

definition no_data_row :: string where
  "no_data_row = ''<tr><td colspan='4'>No attendance data found.</td></tr>''"

text \<open>The \<^verbatim>\<open>try\<close> block of \<^verbatim>\<open>loadAttendance\<close>.\<close>

definition attendance_try :: "string \<Rightarrow> page \<Rightarrow> fetch_outcome \<Rightarrow> unit result \<times> page" where
  "attendance_try token s out =
     (let s1 = send (attendance_request token) s in
      case out of
        NoResponse \<Rightarrow> (Inl FetchFailed, s1)
      | Response response \<Rightarrow>
          if status response = 200 then
            (case body_json response of
               None \<Rightarrow> (Inl BodyFailed, s1)
             | Some data \<Rightarrow>
                 (case length_is_zero data of
                    Inl e \<Rightarrow> (Inl e, s1)
                  | Inr True \<Rightarrow> set_innerHTML no_data_row s1
                  | Inr False \<Rightarrow>
                      (case render_rows data of
                         Inl e \<Rightarrow> (Inl e, s1)
                       | Inr html \<Rightarrow> set_innerHTML html s1)))
          else if status response = 401 then
            (case set_error_text ''Unauthorized. Please log in again.'' s1 of
               (Inl e, s2) \<Rightarrow> (Inl e, s2)
             | (Inr u, s2) \<Rightarrow> (Inr (), logout s2))
          else set_error_text ''Failed to load attendance data.'' s1)"

text \<open>
  \<^verbatim>\<open>loadAttendance()\<close>: the token test, the \<^verbatim>\<open>try\<close> block, and the \<^verbatim>\<open>catch\<close> block, whose
  own assignment may throw, in which case the promise rejects.
\<close>

definition loadAttendance :: "page \<Rightarrow> fetch_outcome \<Rightarrow> unit result \<times> page" where
  "loadAttendance s out =
     (case getItem ''token'' s of
        None \<Rightarrow> (Inr (), s\<lparr>location_href := Some ''index.html''\<rparr>)
      | Some token \<Rightarrow>
          if \<not> present (Some token) then (Inr (), s\<lparr>location_href := Some ''index.html''\<rparr>)
          else
            (case attendance_try token s out of
               (Inr u, s2) \<Rightarrow> (Inr (), s2)
             | (Inl error, s2) \<Rightarrow>
                 set_error_text ''Server unreachable.'' (s2\<lparr>console := console s2 @ [error]\<rparr>)))"

section \<open>Filtering the rendered rows\<close>

text \<open>
  A row of the table as the filter sees it: the text of its cells and its \<^verbatim>\<open>style.display\<close>.
  A text is the list of its code units, of whatever type these are.  The handler reads three
  things it does not own, and they are its arguments: the rows matched by the selector, the
  value of the filter input (\<open>None\<close> when the page has no such element), and
  \<^verbatim>\<open>String.prototype.toLowerCase\<close>, the lower-casing of the browser, whose tables are not
  part of the script.
\<close>

record 'c tr =
  cells :: "'c list list"
  display :: string

fun startsWith :: "'c list \<Rightarrow> 'c list \<Rightarrow> bool" where
  "startsWith s [] = True"
| "startsWith [] (q # qs) = False"
| "startsWith (c # cs) (q # qs) = (c = q \<and> startsWith cs qs)"

text \<open>\<^verbatim>\<open>s.includes(q)\<close>: \<open>q\<close> occurs in \<open>s\<close> at some position.\<close>

fun includes_str :: "'c list \<Rightarrow> 'c list \<Rightarrow> bool" where
  "includes_str [] q = (q = [])"
| "includes_str (c # cs) q = (startsWith (c # cs) q \<or> includes_str cs q)"

text \<open>\<^verbatim>\<open>row.cells[1]?.textContent.toLowerCase() || ""\<close>\<close>

definition row_name :: "('c list \<Rightarrow> 'c list) \<Rightarrow> 'c tr \<Rightarrow> 'c list" where
  "row_name toLowerCase row =
     (if 1 < length (cells row) then toLowerCase (cells row ! 1) else [])"

definition filter_row :: "('c list \<Rightarrow> 'c list) \<Rightarrow> 'c list \<Rightarrow> 'c tr \<Rightarrow> 'c tr" where
  "filter_row toLowerCase query row =
     row\<lparr>display := (if includes_str (row_name toLowerCase row) query then [] else ''none'')\<rparr>"

text \<open>
  \<^verbatim>\<open>filterAttendance()\<close>: without a filter input the first line throws and no row is touched.
\<close>

definition filterAttendance ::
  "('c list \<Rightarrow> 'c list) \<Rightarrow> page \<Rightarrow> 'c list option \<Rightarrow> 'c tr list \<Rightarrow> 'c tr list result \<times> page" where
  "filterAttendance toLowerCase s filter_input rows =
     (case filter_input of
        None \<Rightarrow> (Inl TypeError, s)
      | Some v \<Rightarrow>
          (let query = toLowerCase v in (Inr (map (filter_row toLowerCase query) rows), s)))"

section \<open>Exporting the report\<close>

definition download_try :: "string \<Rightarrow> page \<Rightarrow> fetch_outcome \<Rightarrow> unit result \<times> page" where
  "download_try token s out =
     (let s1 = send (attendance_request token) s in
      case out of
        NoResponse \<Rightarrow> (Inl FetchFailed, s1)
      | Response response \<Rightarrow>
          if status response = 200 then
            (case body_blob response of
               None \<Rightarrow> (Inl BodyFailed, s1)
             | Some blob \<Rightarrow>
                 (Inr (), s1\<lparr>downloads := downloads s1 @ [(''attendance_report.csv'', blob)]\<rparr>))
          else (Inr (), alert ''Failed to download report.'' s1))"

definition downloadReport :: "page \<Rightarrow> fetch_outcome \<Rightarrow> page" where
  "downloadReport s out =
     (case getItem ''token'' s of
        None \<Rightarrow> alert ''Please log in first.'' s
      | Some token \<Rightarrow>
          if \<not> present (Some token) then alert ''Please log in first.'' s
          else
            (case download_try token s out of
               (Inr u, s2) \<Rightarrow> s2
             | (Inl error, s2) \<Rightarrow> alert ''Server unreachable.'' s2))"

section \<open>The specification's vocabulary\<close>

text \<open>
  The specification speaks of a query contained in a text as a substring, of the identity cell
  of a rendered row, of the rows of the table, and of a logical field resolved through an
  ordered list of accepted aliases with a placeholder when none of them is there.  The
  definitions of this section follow its words and are written without the handlers; the
  theorems below compare the two.
\<close>

definition substring :: "'c list \<Rightarrow> 'c list \<Rightarrow> bool" where
  "substring q s = (\<exists>ps ss. s = ps @ q @ ss)"

text \<open>The identity cell of a row is its second cell.\<close>

definition identity_cell :: "'c tr \<Rightarrow> 'c list option" where
  "identity_cell row = (if 1 < length (cells row) then Some (cells row ! 1) else None)"

subsection \<open>Fields of a record\<close>

text \<open>
  A field is passed over when it is missing and also when its value is blank: \<^verbatim>\<open>null\<close>,
  \<^verbatim>\<open>false\<close>, zero or the empty string.
\<close>

fun blank :: "json \<Rightarrow> bool" where
  "blank JNull = True"
| "blank (JBool b) = (\<not> b)"
| "blank (JNum p) = (p = ''0'')"
| "blank (JStr s) = (s = [])"
| "blank (JArr xs) = False"
| "blank (JObj kvs) = False"

text \<open>The text of a string, a number or a boolean; other values have none here.\<close>

fun text_of :: "json \<Rightarrow> string" where
  "text_of (JStr s) = s"
| "text_of (JNum p) = p"
| "text_of (JBool b) = (if b then ''true'' else ''false'')"
| "text_of v = []"

fun first_present :: "(string \<times> json) list \<Rightarrow> string list \<Rightarrow> string \<Rightarrow> string" where
  "first_present kvs [] placeholder = placeholder"
| "first_present kvs (k # ks) placeholder =
     (case map_of kvs k of
        None \<Rightarrow> first_present kvs ks placeholder
      | Some v \<Rightarrow> if blank v then first_present kvs ks placeholder else text_of v)"

fun properties :: "json \<Rightarrow> (string \<times> json) list" where
  "properties (JObj kvs) = kvs"
| "properties v = []"

text \<open>The placeholder glyph, U+2014, in UTF-8.\<close>

definition em_dash :: string where
  "em_dash = [CHR 0xE2, CHR 0x80, CHR 0x94]"

subsection \<open>Rows built from markup\<close>

text \<open>
  The rows, each the list of the texts of its cells, that a browser builds when markup is
  assigned to the \<^verbatim>\<open>innerHTML\<close> of a table or of a table section.  Only one shape of markup
  is read: \<^verbatim>\<open><tr>\<close> elements holding \<^verbatim>\<open><td>\<close> elements holding character data, with
  nothing but white space between the tags.  Character data with \<^verbatim>\<open>&\<close>, a carriage return
  or a NUL, which the browser would rewrite, and every other markup have no rows here
  (\<open>None\<close>).

  The markup is first cut at its tags, into the pairs of a run of characters and the tag that
  ends it, and the characters after the last tag.
\<close>

definition ws_char :: "char \<Rightarrow> bool" where
  "ws_char c = (c = CHR '' '' \<or> c = CHR 0x09 \<or> c = CHR 0x0A \<or> c = CHR 0x0C \<or> c = CHR 0x0D)"

definition plain_char :: "char \<Rightarrow> bool" where
  "plain_char c = (c \<noteq> CHR ''<'' \<and> c \<noteq> CHR ''&'' \<and> c \<noteq> CHR 0x0D \<and> c \<noteq> CHR 0x00)"

fun lex_chars :: "string \<Rightarrow> string \<Rightarrow> ((string \<times> string) list \<times> string) option"
  and lex_tag :: "string \<Rightarrow> string \<Rightarrow> string \<Rightarrow> ((string \<times> string) list \<times> string) option" where
  "lex_chars run [] = Some ([], run)"
| "lex_chars run (c # cs) =
     (if c = CHR ''<'' then lex_tag run [] cs else lex_chars (run @ [c]) cs)"
| "lex_tag run tag [] = None"
| "lex_tag run tag (c # cs) =
     (if c = CHR ''>''
      then (case lex_chars [] cs of
              None \<Rightarrow> None
            | Some (pairs, rest) \<Rightarrow> Some ((run, tag) # pairs, rest))
      else lex_tag run (tag @ [c]) cs)"

text \<open>Where the reader stands: between rows, in a row with the cells so far, or in a cell.\<close>

datatype place = Outside | InRow "string list" | InCell "string list"

fun step :: "string list list \<times> place \<Rightarrow> string \<times> string \<Rightarrow> (string list list \<times> place) option" where
  "step (rows, Outside) (run, tag) =
     (if list_all ws_char run \<and> tag = ''tr'' then Some (rows, InRow []) else None)"
| "step (rows, InRow cs) (run, tag) =
     (if \<not> list_all ws_char run then None
      else if tag = ''td'' then Some (rows, InCell cs)
      else if tag = ''/tr'' then Some (rows @ [cs], Outside)
      else None)"
| "step (rows, InCell cs) (run, tag) =
     (if list_all plain_char run \<and> tag = ''/td'' then Some (rows, InRow (cs @ [run])) else None)"

fun steps :: "string list list \<times> place \<Rightarrow> (string \<times> string) list \<Rightarrow> (string list list \<times> place) option" where
  "steps st [] = Some st"
| "steps st (p # ps) = (case step st p of None \<Rightarrow> None | Some st' \<Rightarrow> steps st' ps)"

text \<open>Reading on from the rows found so far; the whole markup is read from no rows.\<close>

definition parse_from :: "string list list \<Rightarrow> string \<Rightarrow> string list list option" where
  "parse_from rows markup =
     (case lex_chars [] markup of
        None \<Rightarrow> None
      | Some (pairs, rest) \<Rightarrow>
          if \<not> list_all ws_char rest then None
          else (case steps (rows, Outside) pairs of
                  Some (rows', Outside) \<Rightarrow> Some rows'
                | _ \<Rightarrow> None))"

definition parse_rows :: "string \<Rightarrow> string list list option" where
  "parse_rows markup = parse_from [] markup"

definition table_rows :: "page \<Rightarrow> string list list option" where
  "table_rows s = (case attendance_table s of None \<Rightarrow> None | Some markup \<Rightarrow> parse_rows markup)"

subsection \<open>Records that can be shown\<close>

text \<open>
  An attendance record is an object.  Each of the five fields the table shows, where the
  record has it, holds a string, a number, a boolean or \<^verbatim>\<open>null\<close> whose text is character
  data in the sense above.
\<close>

fun scalar :: "json \<Rightarrow> bool" where
  "scalar (JArr xs) = False"
| "scalar (JObj kvs) = False"
| "scalar v = True"

definition shown_value :: "json option \<Rightarrow> bool" where
  "shown_value f = (case f of None \<Rightarrow> True | Some v \<Rightarrow> scalar v \<and> list_all plain_char (text_of v))"

fun attendance_record :: "json \<Rightarrow> bool" where
  "attendance_record (JObj kvs) =
     list_all (\<lambda>k. shown_value (map_of kvs k))
       [''name'', ''user'', ''time'', ''timestamp'', ''status'']"
| "attendance_record v = False"

section \<open>Example pages and responses\<close>

definition page0 :: page where
  "page0 =
     \<lparr>localStorage = Map.empty, location_href = None, admin_name = Some ''Guest'',
      error_message = Some [], attendance_table = Some [],
      alerts = [], console = [], downloads = [], requests = []\<rparr>"

definition signed_in :: page where
  "signed_in = page0\<lparr>localStorage := [''token'' \<mapsto> ''T'', ''admin'' \<mapsto> ''Admin'']\<rparr>"

definition identity_only :: page where
  "identity_only = page0\<lparr>localStorage := [''admin'' \<mapsto> ''Admin'']\<rparr>"

definition reply :: "nat \<Rightarrow> response" where
  "reply st = \<lparr>status = st, body_text = None, body_json = None, body_blob = None\<rparr>"

definition json_reply :: "json \<Rightarrow> response" where
  "json_reply j = \<lparr>status = 200, body_text = None, body_json = Some j, body_blob = None\<rparr>"

definition login_body :: json where
  "login_body =
     JObj [(''access_token'', JStr ''T''), (''admin'', JObj [(''name'', JStr ''Admin'')])]"

definition two_records :: "json list" where
  "two_records =
     [JObj [(''name'', JStr ''A''), (''status'', JStr ''present'')], JObj [(''user'', JStr ''B'')]]"

text \<open>A record whose name closes its cell and its row and opens new ones.\<close>

definition split_record :: json where
  "split_record = JObj [(''name'', JStr ''</td></tr><tr><td>x'')]"

text \<open>A record whose status field is there and empty.\<close>

definition empty_status_record :: json where
  "empty_status_record = JObj [(''name'', JStr ''A''), (''status'', JStr [])]"

text \<open>A lower-casing that is right on ASCII text, for the examples below.\<close>

definition to_lower_char :: "char \<Rightarrow> char" where
  "to_lower_char c =
     (if 65 \<le> (of_char c :: nat) \<and> (of_char c :: nat) \<le> 90 then char_of (of_char c + 32 :: nat)
      else c)"

definition ascii_lower :: "string \<Rightarrow> string" where
  "ascii_lower s = map to_lower_char s"

definition three_rows :: "char tr list" where
  "three_rows =
     [\<lparr>cells = [''1'', ''Alice'', ''09:41'', ''Present''], display = []\<rparr>,
      \<lparr>cells = [''2'', ''Bob'', ''09:43'', ''Present''], display = []\<rparr>,
      \<lparr>cells = [''No attendance data found.''], display = []\<rparr>]"

section \<open>Auxiliary facts\<close>

lemma present_simps [simp]:
  "present None = False" "present (Some t) = (t \<noteq> [])"
  by (simp_all add: present_def)

lemma presentE:
  assumes "present v"
  obtains t where "v = Some t" and "t \<noteq> []"
  using assms by (cases v) simp_all

lemma bind_simps:
  "bind (Inl e) f = Inl e" "bind (Inr x) f = f x"
  by (simp_all add: bind_def)

lemma show_nat_1: "show_nat (Suc 0) = ''1''"
  by code_simp

lemma show_nat_2: "show_nat (Suc (Suc 0)) = ''2''"
  by code_simp

lemma show_nat_403: "show_nat 403 = ''403''"
  by code_simp

lemma loadAttendance_absent:
  "\<not> present (getItem ''token'' s) \<Longrightarrow>
   loadAttendance s out = (Inr (), s\<lparr>location_href := Some ''index.html''\<rparr>)"
  by (cases "getItem ''token'' s") (simp_all add: loadAttendance_def)

lemma loadAttendance_token:
  "getItem ''token'' s = Some t \<Longrightarrow> t \<noteq> [] \<Longrightarrow>
   loadAttendance s out =
     (case attendance_try t s out of
        (Inr u, s2) \<Rightarrow> (Inr (), s2)
      | (Inl error, s2) \<Rightarrow>
          set_error_text ''Server unreachable.'' (s2\<lparr>console := console s2 @ [error]\<rparr>))"
  by (simp add: loadAttendance_def)

lemma downloadReport_absent:
  "\<not> present (getItem ''token'' s) \<Longrightarrow> downloadReport s out = alert ''Please log in first.'' s"
  by (cases "getItem ''token'' s") (simp_all add: downloadReport_def)

lemma downloadReport_token:
  "getItem ''token'' s = Some t \<Longrightarrow> t \<noteq> [] \<Longrightarrow>
   downloadReport s out =
     (case download_try t s out of
        (Inr u, s2) \<Rightarrow> s2
      | (Inl error, s2) \<Rightarrow> alert ''Server unreachable.'' s2)"
  by (simp add: downloadReport_def)

lemma set_error_text_requests: "requests (snd (set_error_text msg s)) = requests s"
  by (simp add: set_error_text_def split: option.splits)

lemma attendance_try_requests:
  "requests (snd (attendance_try t s out)) = requests s @ [attendance_request t]"
  by (auto simp: attendance_try_def send_def Let_def logout_def removeItem_def
      set_error_text_def set_innerHTML_def
      split: fetch_outcome.splits option.splits sum.splits bool.splits)

lemma loadAttendance_requests:
  assumes "getItem ''token'' s = Some t"
  shows "requests (snd (loadAttendance s out))
           = requests s @ (if t = [] then [] else [attendance_request t])"
proof (cases "t = []")
  case True
  with assms show ?thesis
    by (simp add: loadAttendance_def)
next
  case False
  obtain r s2 where res: "attendance_try t s out = (r, s2)"
    by (cases "attendance_try t s out")
  with attendance_try_requests [of t s out]
  have "requests s2 = requests s @ [attendance_request t]"
    by simp
  with False res show ?thesis
    by (cases r) (simp_all add: loadAttendance_token [OF assms False] set_error_text_requests)
qed

subsection \<open>Substring search\<close>

lemma startsWith_iff: "startsWith s q \<longleftrightarrow> (\<exists>ss. s = q @ ss)"
  by (induction s q rule: startsWith.induct) auto

lemma includes_str_iff: "includes_str s q \<longleftrightarrow> substring q s"
proof (induction s)
  case Nil
  then show ?case by (simp add: substring_def)
next
  case (Cons c cs)
  have "substring q (c # cs) \<longleftrightarrow> (\<exists>ss. c # cs = q @ ss) \<or> substring q cs"
  proof
    assume "substring q (c # cs)"
    then obtain ps ss where eq: "c # cs = ps @ q @ ss"
      by (auto simp: substring_def)
    show "(\<exists>ss. c # cs = q @ ss) \<or> substring q cs"
    proof (cases ps)
      case Nil
      with eq show ?thesis by auto
    next
      case (Cons p ps')
      with eq have "cs = ps' @ q @ ss" by simp
      then show ?thesis by (auto simp: substring_def)
    qed
  next
    assume "(\<exists>ss. c # cs = q @ ss) \<or> substring q cs"
    then show "substring q (c # cs)"
    proof
      assume "\<exists>ss. c # cs = q @ ss"
      then obtain ss where "c # cs = [] @ q @ ss" by auto
      then show ?thesis unfolding substring_def by blast
    next
      assume "substring q cs"
      then obtain ps ss where "cs = ps @ q @ ss" by (auto simp: substring_def)
      then have "c # cs = (c # ps) @ q @ ss" by simp
      then show ?thesis unfolding substring_def by blast
    qed
  qed
  with Cons show ?case by (simp add: startsWith_iff)
qed

subsection \<open>Cutting and reading the markup of the row loop\<close>

lemma plain_digits: "list_all (\<lambda>d. plain_char (digit d)) [0..<10]"
  by code_simp

lemma plain_digit: "d < 10 \<Longrightarrow> plain_char (digit d)"
  using plain_digits by (simp add: list_all_iff)

lemma plain_show_nat: "list_all plain_char (show_nat n)"
proof (induction n rule: show_nat.induct)
  case (1 n)
  show ?case
  proof (cases "n < 10")
    case True
    then show ?thesis
      by (subst show_nat.simps) (simp add: plain_digit)
  next
    case False
    with 1 have "list_all plain_char (show_nat (n div 10))"
      by simp
    moreover have "plain_char (digit (n mod 10))"
      by (rule plain_digit) simp
    ultimately show ?thesis
      using False by (subst show_nat.simps) simp
  qed
qed

lemma lex_chars_run:
  "CHR ''<'' \<notin> set t \<Longrightarrow> lex_chars run (t @ CHR ''<'' # rest) = lex_tag (run @ t) [] rest"
  by (induction t arbitrary: run) auto

lemma plain_no_tag: "list_all plain_char t \<Longrightarrow> CHR ''<'' \<notin> set t"
  by (auto simp: list_all_iff plain_char_def)

lemma lex_row:
  assumes "CHR ''<'' \<notin> set c0" and "CHR ''<'' \<notin> set c1"
    and "CHR ''<'' \<notin> set c2" and "CHR ''<'' \<notin> set c3"
    and "lex_chars [] rest = Some (pairs, r)"
  shows "lex_chars [] (row_template c0 c1 c2 c3 @ rest) =
           Some ([(CHR 0x0A # ''          '', ''tr''),
                  (CHR 0x0A # ''            '', ''td''), (c0, ''/td''),
                  (CHR 0x0A # ''            '', ''td''), (c1, ''/td''),
                  (CHR 0x0A # ''            '', ''td''), (c2, ''/td''),
                  (CHR 0x0A # ''            '', ''td''), (c3, ''/td''),
                  (CHR 0x0A # ''          '', ''/tr'')] @ pairs, r)"
  using assms by (simp add: row_template_def lex_chars_run)

lemma lex_row_none:
  assumes "CHR ''<'' \<notin> set c0" and "CHR ''<'' \<notin> set c1"
    and "CHR ''<'' \<notin> set c2" and "CHR ''<'' \<notin> set c3"
    and "lex_chars [] rest = None"
  shows "lex_chars [] (row_template c0 c1 c2 c3 @ rest) = None"
  using assms by (simp add: row_template_def lex_chars_run)

lemma parse_row:
  assumes "list_all plain_char c0" and "list_all plain_char c1"
    and "list_all plain_char c2" and "list_all plain_char c3"
  shows "parse_from rows (row_template c0 c1 c2 c3 @ rest) = parse_from (rows @ [[c0, c1, c2, c3]]) rest"
proof (cases "lex_chars [] rest")
  case None
  with assms show ?thesis
    by (simp add: parse_from_def lex_row_none plain_no_tag)
next
  case (Some a)
  then obtain pairs r where "lex_chars [] rest = Some (pairs, r)"
    by (cases a) simp
  with assms show ?thesis
    by (simp add: parse_from_def lex_row plain_no_tag ws_char_def)
qed


lemma truthy_blank: "truthy (Some v) = (\<not> blank v)"
  by (cases v) simp_all

lemma ToString_scalar: "scalar v \<Longrightarrow> \<not> blank v \<Longrightarrow> ToString (Some v) = Inr (text_of v)"
  by (cases v) (simp_all add: ToString_def)

lemma cell_one_alias:
  assumes "shown_value (map_of kvs k)"
  shows "bind (or_prop (JObj kvs) k (Inr (Some (JStr d)))) ToString
           = Inr (first_present kvs [k] d)"
proof (cases "map_of kvs k")
  case None
  then show ?thesis
    by (simp add: or_prop_def bind_def ToString_def)
next
  case (Some v)
  with assms have "scalar v"
    by (simp add: shown_value_def)
  with Some show ?thesis
    by (simp add: or_prop_def bind_def truthy_blank ToString_scalar) (simp add: ToString_def)
qed

lemma cell_two_aliases:
  assumes "shown_value (map_of kvs k1)" and "shown_value (map_of kvs k2)"
  shows "bind (or_prop (JObj kvs) k1 (or_prop (JObj kvs) k2 (Inr (Some (JStr d))))) ToString
           = Inr (first_present kvs [k1, k2] d)"
proof (cases "map_of kvs k1")
  case None
  with cell_one_alias [OF assms(2), of d] show ?thesis
    by (simp add: or_prop_def bind_def)
next
  case (Some v)
  with assms(1) have "scalar v"
    by (simp add: shown_value_def)
  with Some cell_one_alias [OF assms(2), of d] show ?thesis
    by (simp add: or_prop_def bind_def truthy_blank ToString_scalar)
qed

lemma plain_first_present:
  assumes "list_all (\<lambda>k. shown_value (map_of kvs k)) ks" and "list_all plain_char d"
  shows "list_all plain_char (first_present kvs ks d)"
  using assms by (induction ks) (auto simp: shown_value_def split: option.splits)

lemma row_html_record:
  assumes "attendance_record r"
  shows "row_html r i =
           Inr (row_template (show_nat (i + 1))
                  (first_present (properties r) [''name'', ''user''] em_dash)
                  (first_present (properties r) [''time'', ''timestamp''] em_dash)
                  (first_present (properties r) [''status''] ''Present''))"
proof -
  from assms obtain kvs where r: "r = JObj kvs"
    by (cases r) simp_all
  with assms have f: "shown_value (map_of kvs ''name'')" "shown_value (map_of kvs ''user'')"
    "shown_value (map_of kvs ''time'')" "shown_value (map_of kvs ''timestamp'')"
    "shown_value (map_of kvs ''status'')"
    by simp_all
  show ?thesis
    unfolding row_html_def r
    by (simp add: cell_one_alias f cell_two_aliases bind_simps dash_def em_dash_def
        del: first_present.simps)
qed

lemma plain_cells:
  assumes "attendance_record r"
  shows "list_all plain_char (first_present (properties r) [''name'', ''user''] em_dash)"
    and "list_all plain_char (first_present (properties r) [''time'', ''timestamp''] em_dash)"
    and "list_all plain_char (first_present (properties r) [''status''] ''Present'')"
proof -
  from assms obtain kvs where r: "r = JObj kvs"
    by (cases r) simp_all
  with assms have f: "shown_value (map_of kvs ''name'')" "shown_value (map_of kvs ''user'')"
    "shown_value (map_of kvs ''time'')" "shown_value (map_of kvs ''timestamp'')"
    "shown_value (map_of kvs ''status'')"
    by simp_all
  show "list_all plain_char (first_present (properties r) [''name'', ''user''] em_dash)"
    unfolding r properties.simps by (rule plain_first_present) (simp_all add: f plain_char_def em_dash_def)
  show "list_all plain_char (first_present (properties r) [''time'', ''timestamp''] em_dash)"
    unfolding r properties.simps by (rule plain_first_present) (simp_all add: f plain_char_def em_dash_def)
  show "list_all plain_char (first_present (properties r) [''status''] ''Present'')"
    unfolding r properties.simps by (rule plain_first_present) (simp_all add: f plain_char_def em_dash_def)
qed

lemma forEach_rows_records:
  assumes "list_all attendance_record recs"
  shows "\<exists>markup. forEach_rows recs i html = Inr (html @ markup)
           \<and> (\<forall>rows. parse_from rows markup =
                 Some (rows @ map (\<lambda>(j, r).
                   [show_nat (j + 1),
                    first_present (properties r) [''name'', ''user''] em_dash,
                    first_present (properties r) [''time'', ''timestamp''] em_dash,
                    first_present (properties r) [''status''] ''Present'']) (enumerate i recs)))"
  using assms
proof (induction recs arbitrary: i html)
  case Nil
  show ?case
    by (simp add: parse_from_def)
next
  case (Cons r recs)
  let ?row = "row_template (show_nat (i + 1))
      (first_present (properties r) [''name'', ''user''] em_dash)
      (first_present (properties r) [''time'', ''timestamp''] em_dash)
      (first_present (properties r) [''status''] ''Present'')"
  from Cons.prems have r: "attendance_record r" and rest: "list_all attendance_record recs"
    by simp_all
  from Cons.IH [OF rest, of "Suc i" "html @ ?row"] obtain markup
    where loop: "forEach_rows recs (Suc i) (html @ ?row) = Inr ((html @ ?row) @ markup)"
      and rows: "\<And>rows. parse_from rows markup =
                 Some (rows @ map (\<lambda>(j, r).
                   [show_nat (j + 1),
                    first_present (properties r) [''name'', ''user''] em_dash,
                    first_present (properties r) [''time'', ''timestamp''] em_dash,
                    first_present (properties r) [''status''] ''Present'']) (enumerate (Suc i) recs))"
    by blast
  have "forEach_rows (r # recs) i html = Inr (html @ (?row @ markup))"
    using loop by (simp add: row_html_record [OF r] bind_simps)
  moreover have "parse_from rows (?row @ markup) =
      Some (rows @ map (\<lambda>(j, r).
        [show_nat (j + 1),
         first_present (properties r) [''name'', ''user''] em_dash,
         first_present (properties r) [''time'', ''timestamp''] em_dash,
         first_present (properties r) [''status''] ''Present'']) (enumerate i (r # recs)))" for rows
    using parse_row [OF plain_show_nat [of "i + 1"] plain_cells [OF r],
        where rows = rows and rest = markup]
    by (simp add: rows del: first_present.simps)
  ultimately show ?case
    by blast
qed

lemma lower_query: "ascii_lower ''ALI'' = ''ali''"
  by code_simp

lemma lower_alice: "ascii_lower ''Alice'' = ''alice''"
  by code_simp

lemma lower_bob: "ascii_lower ''Bob'' = ''bob''"
  by code_simp

section \<open>The claims\<close>

text \<open>
  C1.  When the attendance fetch is answered with status 401, the error region reads
  "Unauthorized. Please log in again.", the token and the identity descriptor are both gone
  from the store, and the page navigates to \<^verbatim>\<open>index.html\<close>, whatever the store held before.
  The fetch is only issued with a token in the store, and the message needs the error region
  to be part of the page.
\<close>

theorem unauthorized_clears_session:
  assumes "present (getItem ''token'' s)" and "error_message s \<noteq> None" and "status res = 401"
  shows "fst (loadAttendance s (Response res)) = Inr ()
         \<and> error_message (snd (loadAttendance s (Response res))) =
             Some ''Unauthorized. Please log in again.''
         \<and> getItem ''token'' (snd (loadAttendance s (Response res))) = None
         \<and> getItem ''admin'' (snd (loadAttendance s (Response res))) = None
         \<and> location_href (snd (loadAttendance s (Response res))) = Some ''index.html''"
proof -
  from assms(1) obtain t where t: "getItem ''token'' s = Some t" "t \<noteq> []"
    by (rule presentE)
  from assms(2) obtain old where old: "error_message s = Some old"
    by auto
  show ?thesis
    by (simp add: loadAttendance_token [OF t] attendance_try_def set_error_text_def send_def
        logout_def removeItem_def getItem_def Let_def old assms(3))
qed

theorem unauthorized_clears_session_witness:
  "present (getItem ''token'' signed_in) \<and> error_message signed_in \<noteq> None
   \<and> status (reply 401) = 401
   \<and> error_message (snd (loadAttendance signed_in (Response (reply 401)))) =
       Some ''Unauthorized. Please log in again.''
   \<and> getItem ''token'' (snd (loadAttendance signed_in (Response (reply 401)))) = None
   \<and> getItem ''admin'' (snd (loadAttendance signed_in (Response (reply 401)))) = None
   \<and> location_href (snd (loadAttendance signed_in (Response (reply 401)))) = Some ''index.html''"
proof -
  have h1: "present (getItem ''token'' signed_in)"
    by (simp add: signed_in_def page0_def getItem_def)
  have h2: "error_message signed_in \<noteq> None"
    by (simp add: signed_in_def page0_def)
  have h3: "status (reply 401) = 401"
    by (simp add: reply_def)
  from unauthorized_clears_session [OF h1 h2 h3] h1 h2 h3 show ?thesis
    by simp
qed

text \<open>
  C2, as amended.  The guard reads the identity descriptor, not the token: whenever the store
  holds no descriptor (the \<^verbatim>\<open>admin\<close> entry is missing or empty), the guard triggers the
  navigation to \<^verbatim>\<open>index.html\<close>.
\<close>

theorem checkAuth_redirects_without_identity:
  assumes "\<not> present (getItem ''admin'' s)"
  shows "location_href (checkAuth s) = Some ''index.html''"
  using assms by (simp add: checkAuth_def Let_def split: option.splits)

theorem checkAuth_redirects_without_identity_witness:
  "\<not> present (getItem ''admin'' page0) \<and> location_href (checkAuth page0) = Some ''index.html''"
proof -
  have h: "\<not> present (getItem ''admin'' page0)"
    by (simp add: page0_def getItem_def)
  from checkAuth_redirects_without_identity [OF h] h show ?thesis
    by simp
qed

text \<open>
  C2 as written fails twice.  With a descriptor but no token in the store the guard does not
  navigate at all; and on an empty store it navigates and then still rewrites the name
  element, so its own later statements do run.
\<close>

theorem checkAuth_counterexample:
  "getItem ''token'' identity_only = None
   \<and> location_href (checkAuth identity_only) = None
   \<and> getItem ''token'' page0 = None
   \<and> location_href (checkAuth page0) = Some ''index.html''
   \<and> admin_name page0 = Some ''Guest''
   \<and> admin_name (checkAuth page0) = Some []"
  by (simp add: checkAuth_def identity_only_def page0_def getItem_def Let_def)

text \<open>
  C3.  With no token in the store (none, or the empty string), loading the attendance only
  redirects and exporting only prompts: neither adds a request to the log, whatever the
  server would have answered.
\<close>

theorem no_request_without_token:
  assumes "\<not> present (getItem ''token'' s)"
  shows "loadAttendance s out = (Inr (), s\<lparr>location_href := Some ''index.html''\<rparr>)
         \<and> requests (snd (loadAttendance s out)) = requests s
         \<and> downloadReport s out = alert ''Please log in first.'' s
         \<and> requests (downloadReport s out) = requests s"
  using assms by (simp add: loadAttendance_absent downloadReport_absent alert_def)

theorem no_request_without_token_witness:
  "\<not> present (getItem ''token'' page0)
   \<and> requests (snd (loadAttendance page0 (Response (json_reply (JArr []))))) = []
   \<and> location_href (snd (loadAttendance page0 (Response (json_reply (JArr []))))) =
       Some ''index.html''
   \<and> requests (downloadReport page0 (Response (json_reply (JArr [])))) = []
   \<and> alerts (downloadReport page0 (Response (json_reply (JArr [])))) = [''Please log in first.'']"
proof -
  have h: "\<not> present (getItem ''token'' page0)"
    by (simp add: page0_def getItem_def)
  from no_request_without_token [OF h, of "Response (json_reply (JArr []))"] h show ?thesis
    by (simp add: page0_def alert_def)
qed

text \<open>
  C4, as amended.  Take a non-empty array of attendance records: objects whose \<^verbatim>\<open>name\<close>,
  \<^verbatim>\<open>user\<close>, \<^verbatim>\<open>time\<close>, \<^verbatim>\<open>timestamp\<close> and \<^verbatim>\<open>status\<close> values, where there are any, are
  strings, numbers, booleans or \<^verbatim>\<open>null\<close> with no \<^verbatim>\<open><\<close>, \<^verbatim>\<open>&\<close>, carriage return or NUL
  in their text.  Then the table gets exactly one row per record, in the order of the array;
  its cells are the position counted from 1, the identity (the first of \<^verbatim>\<open>name\<close> and
  \<^verbatim>\<open>user\<close> that is there and not blank, else the dash), the time (the first of \<^verbatim>\<open>time\<close>
  and \<^verbatim>\<open>timestamp\<close> that is there and not blank, else the dash) and the status (the
  \<^verbatim>\<open>status\<close> field when it is there and not blank, else "Present").  Blank is \<^verbatim>\<open>null\<close>,
  \<^verbatim>\<open>false\<close>, zero and the empty string.
\<close>

theorem render_one_row_per_plain_record:
  assumes "present (getItem ''token'' s)" and "attendance_table s \<noteq> None"
    and "status res = 200" and "body_json res = Some (JArr recs)"
    and "recs \<noteq> []" and "list_all attendance_record recs"
  shows "fst (loadAttendance s (Response res)) = Inr ()
         \<and> table_rows (snd (loadAttendance s (Response res))) =
             Some (map (\<lambda>(i, r).
               [show_nat (i + 1),
                first_present (properties r) [''name'', ''user''] em_dash,
                first_present (properties r) [''time'', ''timestamp''] em_dash,
                first_present (properties r) [''status''] ''Present'']) (enumerate 0 recs))"
proof -
  from assms(1) obtain t where t: "getItem ''token'' s = Some t" "t \<noteq> []"
    by (rule presentE)
  from assms(2) obtain old where old: "attendance_table s = Some old"
    by auto
  from forEach_rows_records [OF assms(6), of 0 "[]"] obtain markup
    where loop: "forEach_rows recs 0 [] = Inr markup"
      and rows: "parse_from [] markup =
                 Some (map (\<lambda>(j, r).
                   [show_nat (j + 1),
                    first_present (properties r) [''name'', ''user''] em_dash,
                    first_present (properties r) [''time'', ''timestamp''] em_dash,
                    first_present (properties r) [''status''] ''Present'']) (enumerate 0 recs))"
    by fastforce
  show ?thesis
    using assms(5)
    by (simp add: loadAttendance_token [OF t] attendance_try_def set_innerHTML_def send_def
        Let_def old assms(3,4) loop table_rows_def parse_rows_def rows del: first_present.simps)
qed

theorem render_one_row_per_plain_record_witness:
  "present (getItem ''token'' signed_in) \<and> attendance_table signed_in \<noteq> None
   \<and> status (json_reply (JArr two_records)) = 200
   \<and> body_json (json_reply (JArr two_records)) = Some (JArr two_records)
   \<and> two_records \<noteq> [] \<and> list_all attendance_record two_records
   \<and> table_rows (snd (loadAttendance signed_in (Response (json_reply (JArr two_records))))) =
       Some [[''1'', ''A'', [CHR 0xE2, CHR 0x80, CHR 0x94], ''present''],
             [''2'', ''B'', [CHR 0xE2, CHR 0x80, CHR 0x94], ''Present'']]"
proof -
  have h1: "present (getItem ''token'' signed_in)"
    by (simp add: signed_in_def page0_def getItem_def)
  have h2: "attendance_table signed_in \<noteq> None"
    by (simp add: signed_in_def page0_def)
  have h3: "status (json_reply (JArr two_records)) = 200"
    by (simp add: json_reply_def)
  have h4: "body_json (json_reply (JArr two_records)) = Some (JArr two_records)"
    by (simp add: json_reply_def)
  have h5: "two_records \<noteq> []"
    by (simp add: two_records_def)
  have h6: "list_all attendance_record two_records"
    by (simp add: two_records_def shown_value_def plain_char_def)
  have rows: "enumerate 0 two_records =
      [(0, JObj [(''name'', JStr ''A''), (''status'', JStr ''present'')]),
       (1, JObj [(''user'', JStr ''B'')])]"
    by (simp add: two_records_def)
  from render_one_row_per_plain_record [OF h1 h2 h3 h4 h5 h6] h1 h2 h3 h4 h5 h6 show ?thesis
    by (simp add: rows em_dash_def show_nat_1 show_nat_2)
qed

text \<open>
  C4 as written fails.  A single record whose name holds markup leaves two rows in the table,
  the first of them with two cells only; and a record whose status field is there but empty
  is shown as "Present".
\<close>

theorem render_rows_counterexample:
  "table_rows (snd (loadAttendance signed_in (Response (json_reply (JArr [split_record]))))) =
     Some [[''1'', []], [''x'', [CHR 0xE2, CHR 0x80, CHR 0x94], ''Present'']]
   \<and> table_rows (snd (loadAttendance signed_in
         (Response (json_reply (JArr [empty_status_record]))))) =
       Some [[''1'', ''A'', [CHR 0xE2, CHR 0x80, CHR 0x94], ''Present'']]"
  by code_simp

text \<open>
  C5.  After a login answered with a success status and a JSON object whose \<^verbatim>\<open>access_token\<close>
  is the string T and which carries an \<^verbatim>\<open>admin\<close> descriptor, the store holds T under
  \<^verbatim>\<open>token\<close> (and the serialised descriptor under \<^verbatim>\<open>admin\<close>); and from any page whose store
  holds that token, every request the attendance load issues is the one request with the
  header \<^verbatim>\<open>Authorization: Bearer T\<close>.
\<close>

theorem login_stores_token_for_fetch:
  assumes "ok res" and "body_json res = Some (JObj kvs)"
    and "map_of kvs ''access_token'' = Some (JStr T)" and "map_of kvs ''admin'' = Some a"
  shows "fst (login s email password (Response res)) = Inr (JObj kvs)
         \<and> getItem ''token'' (snd (login s email password (Response res))) = Some T
         \<and> getItem ''admin'' (snd (login s email password (Response res))) = Some (stringify a)
         \<and> (\<forall>s' out. getItem ''token'' s' = Some T \<longrightarrow>
               requests (snd (loadAttendance s' out)) =
                 requests s' @
                 (if T = [] then []
                  else [\<lparr>http_method = ''GET'', url = BACKEND_URL @ ''/attendance'',
                         headers = [(''Authorization'', ''Bearer '' @ T)], form = []\<rparr>]))"
proof -
  have "fst (login s email password (Response res)) = Inr (JObj kvs)"
    and "getItem ''token'' (snd (login s email password (Response res))) = Some T"
    and "getItem ''admin'' (snd (login s email password (Response res))) = Some (stringify a)"
    using assms
    by (simp_all add: login_def bind_def ToString_def JSON_stringify_def setItem_def getItem_def
        send_def Let_def)
  then show ?thesis
    using loadAttendance_requests [where t = T]
    by (simp add: attendance_request_def)
qed

theorem login_stores_token_for_fetch_witness:
  "ok (json_reply login_body)
   \<and> getItem ''token''
        (snd (login page0 ''admin@example.com'' ''correct'' (Response (json_reply login_body)))) =
       Some ''T''
   \<and> requests (snd (loadAttendance
        (snd (login page0 ''admin@example.com'' ''correct'' (Response (json_reply login_body))))
        NoResponse)) =
       [login_request ''admin@example.com'' ''correct'',
        \<lparr>http_method = ''GET'', url = BACKEND_URL @ ''/attendance'',
         headers = [(''Authorization'', ''Bearer T'')], form = []\<rparr>]"
proof -
  let ?kvs = "[(''access_token'', JStr ''T''), (''admin'', JObj [(''name'', JStr ''Admin'')])]"
  let ?s = "snd (login page0 ''admin@example.com'' ''correct'' (Response (json_reply login_body)))"
  have h1: "ok (json_reply login_body)"
    by (simp add: ok_def json_reply_def)
  have h2: "body_json (json_reply login_body) = Some (JObj ?kvs)"
    by (simp add: json_reply_def login_body_def)
  have h3: "map_of ?kvs ''access_token'' = Some (JStr ''T'')"
    by simp
  have h4: "map_of ?kvs ''admin'' = Some (JObj [(''name'', JStr ''Admin'')])"
    by simp
  note inst = login_stores_token_for_fetch [OF h1 h2 h3 h4, of page0 "''admin@example.com''" "''correct''"]
  have tok: "getItem ''token'' ?s = Some ''T''"
    using inst by simp
  have sent: "requests ?s = [login_request ''admin@example.com'' ''correct'']"
    by (simp add: login_def h1 h2 send_def page0_def bind_def ToString_def JSON_stringify_def
        setItem_def Let_def)
  from inst tok have "requests (snd (loadAttendance ?s NoResponse)) =
      requests ?s @ [\<lparr>http_method = ''GET'', url = BACKEND_URL @ ''/attendance'',
                       headers = [(''Authorization'', ''Bearer '' @ ''T'')], form = []\<rparr>]"
    by simp
  with sent h1 tok show ?thesis
    by simp
qed

text \<open>
  C6.  With the query q in the filter input, the filter shows (clears the \<^verbatim>\<open>display\<close> of)
  exactly the rows whose identity cell, lower-cased, contains the lower-cased q as a
  substring, and hides every other row, whatever function the browser's lower-casing is.  A
  row without an identity cell is shown exactly when the lower-cased query is empty.  As
  lower-casing leaves the empty text empty, the empty query shows every row.  The page, and
  with it the request log, is left as it was.
\<close>

theorem filter_shows_matching_rows:
  "filterAttendance lower s (Some q) rows =
     (Inr (map (\<lambda>row. row\<lparr>display :=
             (if (case identity_cell row of
                    None \<Rightarrow> lower q = []
                  | Some t \<Rightarrow> substring (lower q) (lower t))
              then [] else ''none'')\<rparr>) rows), s)
   \<and> (lower [] = [] \<longrightarrow>
        filterAttendance lower s (Some []) rows = (Inr (map (\<lambda>row. row\<lparr>display := []\<rparr>) rows), s))
   \<and> requests (snd (filterAttendance lower s (Some q) rows)) = requests s"
proof -
  have empty: "substring [] t" for t :: "'a list"
    unfolding substring_def by auto
  have nil: "substring t [] \<longleftrightarrow> t = []" for t :: "'a list"
    unfolding substring_def by auto
  have row: "filter_row lower query r =
      r\<lparr>display :=
          (if (case identity_cell r of
                 None \<Rightarrow> query = []
               | Some t \<Rightarrow> substring query (lower t))
           then [] else ''none'')\<rparr>"
    for query and r :: "'a tr"
    by (simp add: filter_row_def row_name_def identity_cell_def includes_str_iff nil)
  show ?thesis
    by (simp add: filterAttendance_def row Let_def empty split: option.splits)
qed

theorem filter_shows_matching_rows_witness:
  "ascii_lower [] = []
   \<and> fst (filterAttendance ascii_lower page0 (Some ''ALI'') three_rows) =
       Inr [\<lparr>cells = [''1'', ''Alice'', ''09:41'', ''Present''], display = []\<rparr>,
            \<lparr>cells = [''2'', ''Bob'', ''09:43'', ''Present''], display = ''none''\<rparr>,
            \<lparr>cells = [''No attendance data found.''], display = ''none''\<rparr>]
   \<and> fst (filterAttendance ascii_lower page0 (Some []) three_rows) = Inr three_rows
   \<and> requests (snd (filterAttendance ascii_lower page0 (Some ''ALI'') three_rows)) = []"
proof -
  have h: "ascii_lower [] = []"
    by (simp add: ascii_lower_def)
  have shown: "map (\<lambda>row. row\<lparr>display := []\<rparr>) three_rows = three_rows"
    by (simp add: three_rows_def)
  from filter_shows_matching_rows [of ascii_lower page0 "''ALI''" three_rows] h show ?thesis
    by (simp add: shown) (simp add: three_rows_def identity_cell_def lower_query lower_alice
        lower_bob includes_str_iff [symmetric] page0_def)
qed

text \<open>
  C7.  On a page with an error region and a stored token, a fetch that gets no response and
  one answered with a status that is neither 2xx nor 401 leave different messages: "Server
  unreachable." against "Failed to load attendance data." when loading, and the alerts
  "Server unreachable." against "Failed to download report." when exporting.
\<close>

theorem failure_messages_distinct:
  assumes "present (getItem ''token'' s)" and "error_message s \<noteq> None"
    and "\<not> ok res" and "status res \<noteq> 401"
  shows "error_message (snd (loadAttendance s (Response res))) =
           Some ''Failed to load attendance data.''
         \<and> error_message (snd (loadAttendance s NoResponse)) = Some ''Server unreachable.''
         \<and> error_message (snd (loadAttendance s (Response res))) \<noteq>
             error_message (snd (loadAttendance s NoResponse))
         \<and> alerts (downloadReport s (Response res)) = alerts s @ [''Failed to download report.'']
         \<and> alerts (downloadReport s NoResponse) = alerts s @ [''Server unreachable.'']
         \<and> alerts (downloadReport s (Response res)) \<noteq> alerts (downloadReport s NoResponse)"
proof -
  from assms(1) obtain t where t: "getItem ''token'' s = Some t" "t \<noteq> []"
    by (rule presentE)
  from assms(2) obtain old where old: "error_message s = Some old"
    by auto
  from assms(3) have st: "status res \<noteq> 200"
    by (auto simp: ok_def)
  show ?thesis
    by (simp add: loadAttendance_token [OF t] downloadReport_token [OF t] attendance_try_def
        download_try_def set_error_text_def send_def alert_def Let_def old st assms(4))
qed

theorem failure_messages_distinct_witness:
  "present (getItem ''token'' signed_in) \<and> error_message signed_in \<noteq> None
   \<and> \<not> ok (reply 500) \<and> status (reply 500) \<noteq> 401
   \<and> error_message (snd (loadAttendance signed_in (Response (reply 500)))) =
       Some ''Failed to load attendance data.''
   \<and> error_message (snd (loadAttendance signed_in NoResponse)) = Some ''Server unreachable.''
   \<and> alerts (downloadReport signed_in (Response (reply 500))) = [''Failed to download report.'']
   \<and> alerts (downloadReport signed_in NoResponse) = [''Server unreachable.'']"
proof -
  have h1: "present (getItem ''token'' signed_in)"
    by (simp add: signed_in_def page0_def getItem_def)
  have h2: "error_message signed_in \<noteq> None"
    by (simp add: signed_in_def page0_def)
  have h3: "\<not> ok (reply 500)"
    by (simp add: ok_def reply_def)
  have h4: "status (reply 500) \<noteq> 401"
    by (simp add: reply_def)
  have a: "alerts signed_in = []"
    by (simp add: signed_in_def page0_def)
  from failure_messages_distinct [OF h1 h2 h3 h4] h1 h2 h3 h4 show ?thesis
    by (simp add: a)
qed

text \<open>
  C8.  A success response carrying the empty array puts exactly the one placeholder row "No
  attendance data found." into the table; the load completes without an error and leaves the
  error region alone.
\<close>

theorem empty_set_placeholder:
  assumes "present (getItem ''token'' s)" and "attendance_table s \<noteq> None"
    and "status res = 200" and "body_json res = Some (JArr [])"
  shows "fst (loadAttendance s (Response res)) = Inr ()
         \<and> attendance_table (snd (loadAttendance s (Response res))) =
             Some ''<tr><td colspan='4'>No attendance data found.</td></tr>''
         \<and> error_message (snd (loadAttendance s (Response res))) = error_message s"
proof -
  from assms(1) obtain t where t: "getItem ''token'' s = Some t" "t \<noteq> []"
    by (rule presentE)
  from assms(2) obtain old where old: "attendance_table s = Some old"
    by auto
  show ?thesis
    by (simp add: loadAttendance_token [OF t] attendance_try_def set_innerHTML_def send_def
        no_data_row_def Let_def old assms(3,4))
qed

theorem empty_set_placeholder_witness:
  "present (getItem ''token'' signed_in) \<and> attendance_table signed_in \<noteq> None
   \<and> status (json_reply (JArr [])) = 200 \<and> body_json (json_reply (JArr [])) = Some (JArr [])
   \<and> fst (loadAttendance signed_in (Response (json_reply (JArr [])))) = Inr ()
   \<and> attendance_table (snd (loadAttendance signed_in (Response (json_reply (JArr []))))) =
       Some ''<tr><td colspan='4'>No attendance data found.</td></tr>''
   \<and> error_message (snd (loadAttendance signed_in (Response (json_reply (JArr []))))) = Some []"
proof -
  have h1: "present (getItem ''token'' signed_in)"
    by (simp add: signed_in_def page0_def getItem_def)
  have h2: "attendance_table signed_in \<noteq> None"
    by (simp add: signed_in_def page0_def)
  have h3: "status (json_reply (JArr [])) = 200"
    by (simp add: json_reply_def)
  have h4: "body_json (json_reply (JArr [])) = Some (JArr [])"
    by (simp add: json_reply_def)
  have e: "error_message signed_in = Some []"
    by (simp add: signed_in_def page0_def)
  from empty_set_placeholder [OF h1 h2 h3 h4] h1 h2 h3 h4 show ?thesis
    by (simp add: e)
qed

text \<open>
  C9.  Loading the same record set a second time changes nothing that is shown: the table's
  markup, the error region and the outcome of the call are those of the first load.  The
  record set is a value of the model and the row loop only reads it.
\<close>

theorem render_idempotent:
  assumes "status res = 200" and "body_json res = Some (JArr R)"
  shows "attendance_table (snd (loadAttendance (snd (loadAttendance s (Response res))) (Response res)))
           = attendance_table (snd (loadAttendance s (Response res)))
         \<and> error_message (snd (loadAttendance (snd (loadAttendance s (Response res))) (Response res)))
           = error_message (snd (loadAttendance s (Response res)))
         \<and> fst (loadAttendance (snd (loadAttendance s (Response res))) (Response res))
           = fst (loadAttendance s (Response res))"
proof (cases "present (getItem ''token'' s)")
  case False
  then show ?thesis
    by (simp add: loadAttendance_absent getItem_def)
next
  case True
  then obtain t where t: "getItem ''token'' s = Some t" "t \<noteq> []"
    by (rule presentE)
  show ?thesis
    using t assms
    by (auto simp: loadAttendance_def attendance_try_def set_innerHTML_def set_error_text_def
        send_def getItem_def Let_def split: option.splits sum.splits bool.splits)
qed

theorem render_idempotent_witness:
  "status (json_reply (JArr two_records)) = 200
   \<and> body_json (json_reply (JArr two_records)) = Some (JArr two_records)
   \<and> attendance_table (snd (loadAttendance
        (snd (loadAttendance signed_in (Response (json_reply (JArr two_records)))))
        (Response (json_reply (JArr two_records)))))
       = attendance_table (snd (loadAttendance signed_in (Response (json_reply (JArr two_records)))))"
proof -
  have h1: "status (json_reply (JArr two_records)) = 200"
    by (simp add: json_reply_def)
  have h2: "body_json (json_reply (JArr two_records)) = Some (JArr two_records)"
    by (simp add: json_reply_def)
  from render_idempotent [OF h1 h2, of signed_in] h1 h2 show ?thesis
    by blast
qed

text \<open>
  C10.  A login answered with a non-success status rejects with "Login failed: " followed by
  the response text, or by the status code when there is no text, and writes nothing to the
  store: whatever token and descriptor an earlier session left are still there.
\<close>

theorem login_failure_keeps_store:
  assumes "\<not> ok res"
  shows "fst (login s email password (Response res)) =
           Inl (Error (''Login failed: '' @
             (case body_text res of
                None \<Rightarrow> show_nat (status res)
              | Some t \<Rightarrow> if t \<noteq> [] then t else show_nat (status res))))
         \<and> localStorage (snd (login s email password (Response res))) = localStorage s"
  using assms by (simp add: login_def send_def Let_def)

theorem login_failure_keeps_store_witness:
  "\<not> ok (reply 403)
   \<and> fst (login signed_in ''admin@example.com'' ''wrong'' (Response (reply 403))) =
       Inl (Error ''Login failed: 403'')
   \<and> getItem ''token'' (snd (login signed_in ''admin@example.com'' ''wrong'' (Response (reply 403)))) =
       Some ''T''
   \<and> getItem ''admin'' (snd (login signed_in ''admin@example.com'' ''wrong'' (Response (reply 403)))) =
       Some ''Admin''"
proof -
  have h: "\<not> ok (reply 403)"
    by (simp add: ok_def reply_def)
  have st: "status (reply 403) = 403" "body_text (reply 403) = None"
    by (simp_all add: reply_def)
  from login_failure_keeps_store [OF h, of signed_in "''admin@example.com''" "''wrong''"] h
  show ?thesis
    by (simp add: st show_nat_403 getItem_def signed_in_def)
qed

end
